theory Spec2Isabelle
  imports Main "HOL-Library.Sublist"
begin

section \<open>Data model (types module)\<close>

text \<open>
  The \<open>Task\<close> interface. The source field \<open>id\<close> is written \<open>task_id\<close> here, since
  \<open>id\<close> is the identity function of HOL. \<open>description\<close> is \<open>string | null\<close>: \<open>None\<close> is
  the absence of a description.
\<close>

record Task =
  task_id :: int
  user_id :: string
  title :: string
  description :: "string option"
  is_completed :: bool
  created_at :: string
  updated_at :: string

text \<open>
  \<open>CreateTaskRequest\<close> and \<open>UpdateTaskRequest\<close> have the same shape: a required \<open>title\<close>
  and an optional \<open>description\<close>. The fields carry the prefix \<open>req_\<close> to keep them apart
  from those of \<open>Task\<close>. For the optional property, \<open>None\<close> is a request object without
  the key, \<open>Some None\<close> one whose key holds \<open>undefined\<close>, \<open>Some (Some d)\<close> one whose key
  holds the string \<open>d\<close>.
\<close>

record TaskRequest =
  req_title :: string
  req_description :: "string option option"

type_synonym CreateTaskRequest = TaskRequest
type_synonym UpdateTaskRequest = TaskRequest

record TaskStats =
  total :: nat
  pending :: nat
  completed :: nat

definition computeStats :: "Task list \<Rightarrow> TaskStats" where
  "computeStats tasks =
     \<lparr> total = length tasks,
       pending = length (filter (\<lambda>t. \<not> is_completed t) tasks),
       completed = length (filter (\<lambda>t. is_completed t) tasks) \<rparr>"

section \<open>The state updaters of the useTasks hook\<close>

text \<open>
  Each function below is one of the arrow functions that the hook hands to \<open>setTasks\<close>;
  its last argument is the \<open>prev\<close> list that React passes in.
\<close>

text \<open>The object spread \<open>{ ...task, ...data }\<close>: the keys of \<open>data\<close> override those of \<open>task\<close>.\<close>

definition spread_update :: "Task \<Rightarrow> UpdateTaskRequest \<Rightarrow> Task" where
  "spread_update task data =
     (case req_description data of
        None \<Rightarrow> task\<lparr>title := req_title data\<rparr>
      | Some d \<Rightarrow> task\<lparr>title := req_title data, description := d\<rparr>)"

text \<open>createTask: \<open>prev.some(t => t.id === newTask.id) ? prev : [newTask, ...prev]\<close>.\<close>

definition createTask_insert :: "Task \<Rightarrow> Task list \<Rightarrow> Task list" where
  "createTask_insert newTask prev =
     (let exists = list_ex (\<lambda>t. task_id t = task_id newTask) prev
      in if exists then prev else newTask # prev)"

text \<open>updateTask, before the request: \<open>prev.map(task => task.id === taskId ? {...task, ...data} : task)\<close>.\<close>

definition updateTask_optimistic :: "int \<Rightarrow> UpdateTaskRequest \<Rightarrow> Task list \<Rightarrow> Task list" where
  "updateTask_optimistic taskId data prev =
     map (\<lambda>task. if task_id task = taskId then spread_update task data else task) prev"


text \<open>deleteTask, before the request: \<open>prev.filter(task => task.id !== taskId)\<close>.\<close>

definition deleteTask_optimistic :: "int \<Rightarrow> Task list \<Rightarrow> Task list" where
  "deleteTask_optimistic taskId prev = filter (\<lambda>task. task_id task \<noteq> taskId) prev"

text \<open>
  toggleComplete, before the request:
  \<open>prev.map(task => task.id === taskId ? {...task, is_completed: !task.is_completed} : task)\<close>.
\<close>

definition toggleComplete_optimistic :: "int \<Rightarrow> Task list \<Rightarrow> Task list" where
  "toggleComplete_optimistic taskId prev =
     map (\<lambda>task. if task_id task = taskId
                  then task\<lparr>is_completed := \<not> is_completed task\<rparr> else task) prev"

text \<open>The number of tasks of a list that carry a given id.\<close>

definition count_id :: "int \<Rightarrow> Task list \<Rightarrow> nat" where
  "count_id n ts = length (filter (\<lambda>t. task_id t = n) ts)"

section \<open>The useTasks hook\<close>

text \<open>
  What an awaited call of the API client gives back to the hook: the value it resolves
  to, or what it throws. \<open>ApiError status detail\<close> is the class of that name;
  \<open>OtherError\<close> is any other exception (a rejected \<open>fetch\<close>, a \<open>SyntaxError\<close> of
  \<open>JSON.parse\<close>).
\<close>

datatype thrown = ApiError int string | OtherError

datatype 'r TaskListResponse = TaskListResponse (response_tasks: 'r)

datatype toast = toast_success string | toast_error string

text \<open>The three state cells of the hook: \<open>tasks\<close>, \<open>isLoading\<close>, \<open>error\<close>.\<close>

record hook =
  tasks :: "Task list"
  isLoading :: bool
  error :: "string option"

text \<open>
  The effect of (a phase of) a callback: the state cells afterwards, the toasts shown,
  and the value the promise resolves to.
\<close>

record 'r outcome =
  state :: hook
  toasts :: "toast list"
  returned :: 'r

text \<open>
  Every callback is an async function with one \<open>await\<close>. It is modelled in two phases:
  \<open>_begin\<close> is the code that runs up to the \<open>await\<close> (the request is then in flight),
  \<open>_settle\<close> is the code that runs when the awaited call has resolved or thrown; it gets
  the state cells as they are at that moment. The function without suffix runs both
  phases with nothing in between.

  \<open>updateTask\<close>, \<open>deleteTask\<close> and \<open>toggleComplete\<close> read the variable \<open>tasks\<close> of the
  render that created them (\<open>const previousTasks = tasks\<close>), while the updater given to
  \<open>setTasks\<close> gets the current cell \<open>prev\<close>. The first argument \<open>rendered\<close> of their
  \<open>_begin\<close>, and of the functions without suffix, is that captured variable. The
  callbacks are rebuilt at every render in which \<open>tasks\<close> has changed (dependency list
  \<open>[tasks]\<close>): a call of the callback of the latest render has \<open>rendered = tasks s\<close>,
  a call of a callback of an earlier render has an older list.
\<close>

definition fetchTasks_begin :: "hook \<Rightarrow> hook" where
  "fetchTasks_begin s = s\<lparr>isLoading := True, error := None\<rparr>"

definition fetchTasks_settle :: "thrown + Task list TaskListResponse \<Rightarrow> hook \<Rightarrow> unit outcome" where
  "fetchTasks_settle awaited s =
     (case awaited of
        Inr response \<Rightarrow>
          \<lparr> state = s\<lparr>tasks := response_tasks response, isLoading := False\<rparr>,
            toasts = [], returned = () \<rparr>
      | Inl (ApiError status detail) \<Rightarrow>
          if status \<noteq> 401
          then \<lparr> state = s\<lparr>error := Some detail, isLoading := False\<rparr>,
                 toasts = [toast_error detail], returned = () \<rparr>
          else \<lparr> state = s\<lparr>isLoading := False\<rparr>, toasts = [], returned = () \<rparr>
      | Inl OtherError \<Rightarrow>
          \<lparr> state = s\<lparr>error := Some ''Failed to load tasks'', isLoading := False\<rparr>,
            toasts = [toast_error ''Failed to load tasks''], returned = () \<rparr>)"

definition fetchTasks :: "hook \<Rightarrow> thrown + Task list TaskListResponse \<Rightarrow> unit outcome" where
  "fetchTasks s awaited = fetchTasks_settle awaited (fetchTasks_begin s)"











definition toggleComplete_begin :: "Task list \<Rightarrow> hook \<Rightarrow> int \<Rightarrow> Task list \<times> hook" where
  "toggleComplete_begin rendered s taskId =
     (let previousTasks = rendered
      in (previousTasks, s\<lparr>tasks := toggleComplete_optimistic taskId (tasks s)\<rparr>))"



section \<open>The API client\<close>

text \<open>
  The part of the browser that the client reads and writes: whether \<open>window\<close> is defined,
  \<open>localStorage\<close> (\<open>getItem\<close> is application, \<open>removeItem k\<close> maps \<open>k\<close> to \<open>None\<close>) and
  \<open>window.location.href\<close>.
\<close>

record browser =
  window_defined :: bool
  localStorage :: "string \<Rightarrow> string option"
  location_href :: string

text \<open>The second argument of \<open>fetch\<close>, and what \<open>fetch\<close> resolves to.\<close>

record RequestInit =
  http_method :: "string option"
  headers :: "string \<Rightarrow> string option"
  body :: "string option"

record http_request =
  url :: string
  init :: RequestInit

record http_response =
  status :: int
  body_text :: string

text \<open>
  What the client takes from its platform. \<open>fetch\<close> gives \<open>None\<close> when the promise is
  rejected. \<open>JSON_parse\<close> gives \<open>None\<close> when \<open>JSON.parse\<close> throws; \<open>'j\<close> is the type of parsed
  values. \<open>JSON_user_id userStr\<close> stands for \<open>JSON.parse(userStr).id\<close> and \<open>JSON_detail\<close> for
  \<open>(await response.json()).detail\<close> on the body text: \<open>None\<close> when the expression throws
  or has no string value.
\<close>

record 'j platform =
  NEXT_PUBLIC_API_URL :: "string option"
  fetch :: "http_request \<Rightarrow> http_response option"
  JSON_parse :: "string \<Rightarrow> 'j option"
  JSON_user_id :: "string \<Rightarrow> string option"
  JSON_detail :: "string \<Rightarrow> string option"
  JSON_stringify :: "TaskRequest \<Rightarrow> string"

text \<open>A string is falsy exactly when it is empty; \<open>null\<close> and \<open>undefined\<close> are \<open>None\<close>.\<close>

definition truthy :: "string option \<Rightarrow> bool" where
  "truthy v = (case v of None \<Rightarrow> False | Some s \<Rightarrow> s \<noteq> [])"

definition API_BASE :: "'j platform \<Rightarrow> string" where
  "API_BASE pf =
     (if truthy (NEXT_PUBLIC_API_URL pf) then the (NEXT_PUBLIC_API_URL pf)
      else ''http://localhost:8000'')"

definition getAccessToken :: "browser \<Rightarrow> string option" where
  "getAccessToken b =
     (if \<not> window_defined b then None else localStorage b ''access_token'')"

definition getUserId :: "'j platform \<Rightarrow> browser \<Rightarrow> string option" where
  "getUserId pf b =
     (if \<not> window_defined b then None
      else let userStr = localStorage b ''user''
           in if \<not> truthy userStr then None else JSON_user_id pf (the userStr))"

text \<open>Template literals turn the numeric task id into its decimal digits.\<close>

fun digits :: "nat \<Rightarrow> string" where
  "digits n =
     (if n < 10 then [''0123456789'' ! n]
      else digits (n div 10) @ [''0123456789'' ! (n mod 10)])"

declare digits.simps [simp del]

definition number_toString :: "int \<Rightarrow> string" where
  "number_toString n = (if n < 0 then ''-'' @ digits (nat (- n)) else digits (nat n))"

datatype 'j payload = EmptyObject | Parsed 'j

text \<open>
  The effect of a call of the client: what it resolves to or throws, the browser
  afterwards, and the requests handed to \<open>fetch\<close>.
\<close>

record 'r api_outcome =
  result :: "thrown + 'r"
  browser_after :: browser
  sent :: "http_request list"

definition ok :: "http_response \<Rightarrow> bool" where
  "ok response = (200 \<le> status response \<and> status response \<le> 299)"

definition no_options :: RequestInit where
  "no_options = \<lparr> http_method = None, headers = Map.empty, body = None \<rparr>"

text \<open>
  The three blocks of \<open>request\<close>. \<open>handed_to_fetch\<close> is the argument of \<open>fetch\<close>: the url
  \<open>${API_BASE}${endpoint}\<close> and \<open>options\<close> with its headers replaced by the spread of
  \<open>Content-Type\<close>, of \<open>token && { Authorization: `Bearer ${token}` }\<close> and of
  \<open>options.headers\<close> (later keys override earlier ones). \<open>error_detail\<close> is the variable
  \<open>detail\<close>: \<open>error.detail || 'An error occurred'\<close>, the default also when reading the
  body throws. \<open>cleared\<close> is the browser after the two \<open>removeItem\<close> calls and the
  assignment to \<open>window.location.href\<close>.
\<close>

definition handed_to_fetch :: "'j platform \<Rightarrow> browser \<Rightarrow> string \<Rightarrow> RequestInit \<Rightarrow> http_request" where
  "handed_to_fetch pf b endpoint options =
     (let token = getAccessToken b
      in \<lparr> url = API_BASE pf @ endpoint,
           init = options\<lparr>headers :=
             ([''Content-Type'' \<mapsto> ''application/json'']
                ++ (if truthy token then [''Authorization'' \<mapsto> ''Bearer '' @ the token]
                    else Map.empty))
                ++ headers options\<rparr> \<rparr>)"

definition error_detail :: "'j platform \<Rightarrow> http_response \<Rightarrow> string" where
  "error_detail pf response =
     (if truthy (JSON_detail pf (body_text response))
      then the (JSON_detail pf (body_text response))
      else ''An error occurred'')"

definition cleared :: "browser \<Rightarrow> browser" where
  "cleared b =
     b\<lparr>localStorage := (localStorage b)(''access_token'' := None, ''user'' := None),
       location_href := ''/login''\<rparr>"

definition request :: "'j platform \<Rightarrow> browser \<Rightarrow> string \<Rightarrow> RequestInit \<Rightarrow> 'j payload api_outcome" where
  "request pf b endpoint options =
     (let req = handed_to_fetch pf b endpoint options
      in case fetch pf req of
           None \<Rightarrow> \<lparr> result = Inl OtherError, browser_after = b, sent = [req] \<rparr>
         | Some response \<Rightarrow>
             if \<not> ok response then
               let detail = error_detail pf response;
                   b' = (if status response = 401
                         then (if window_defined b then cleared b else b)
                         else b)
               in \<lparr> result = Inl (ApiError (status response) detail),
                    browser_after = b', sent = [req] \<rparr>
             else if body_text response = [] then
               \<lparr> result = Inr EmptyObject, browser_after = b, sent = [req] \<rparr>
             else (case JSON_parse pf (body_text response) of
                     None \<Rightarrow> \<lparr> result = Inl OtherError, browser_after = b, sent = [req] \<rparr>
                   | Some j \<Rightarrow> \<lparr> result = Inr (Parsed j), browser_after = b, sent = [req] \<rparr>))"

text \<open>Thrown by every task endpoint before any request when \<open>getUserId\<close> gives a falsy value.\<close>

definition not_authenticated :: "browser \<Rightarrow> 'r api_outcome" where
  "not_authenticated b =
     \<lparr> result = Inl (ApiError 401 ''Not authenticated''), browser_after = b, sent = [] \<rparr>"

definition then_return :: "('a \<Rightarrow> 'r) \<Rightarrow> 'a api_outcome \<Rightarrow> 'r api_outcome" where
  "then_return f out =
     \<lparr> result = map_sum (\<lambda>e. e) f (result out),
       browser_after = browser_after out, sent = sent out \<rparr>"

definition api_getTasks :: "'j platform \<Rightarrow> browser \<Rightarrow> 'j payload TaskListResponse api_outcome" where
  "api_getTasks pf b =
     (let userId = getUserId pf b
      in if \<not> truthy userId then not_authenticated b
         else then_return TaskListResponse
                (request pf b (''/api/'' @ the userId @ ''/tasks'') no_options))"

definition api_getTask :: "'j platform \<Rightarrow> browser \<Rightarrow> int \<Rightarrow> 'j payload api_outcome" where
  "api_getTask pf b taskId =
     (let userId = getUserId pf b
      in if \<not> truthy userId then not_authenticated b
         else request pf b (''/api/'' @ the userId @ ''/tasks/'' @ number_toString taskId)
                no_options)"

definition api_createTask :: "'j platform \<Rightarrow> browser \<Rightarrow> CreateTaskRequest \<Rightarrow> 'j payload api_outcome" where
  "api_createTask pf b data =
     (let userId = getUserId pf b
      in if \<not> truthy userId then not_authenticated b
         else request pf b (''/api/'' @ the userId @ ''/tasks'')
                (no_options\<lparr>http_method := Some ''POST'',
                            body := Some (JSON_stringify pf data)\<rparr>))"

definition api_updateTask :: "'j platform \<Rightarrow> browser \<Rightarrow> int \<Rightarrow> UpdateTaskRequest \<Rightarrow> 'j payload api_outcome" where
  "api_updateTask pf b taskId data =
     (let userId = getUserId pf b
      in if \<not> truthy userId then not_authenticated b
         else request pf b (''/api/'' @ the userId @ ''/tasks/'' @ number_toString taskId)
                (no_options\<lparr>http_method := Some ''PUT'',
                            body := Some (JSON_stringify pf data)\<rparr>))"

definition api_deleteTask :: "'j platform \<Rightarrow> browser \<Rightarrow> int \<Rightarrow> unit api_outcome" where
  "api_deleteTask pf b taskId =
     (let userId = getUserId pf b
      in if \<not> truthy userId then not_authenticated b
         else then_return (\<lambda>r. ())
                (request pf b (''/api/'' @ the userId @ ''/tasks/'' @ number_toString taskId)
                   (no_options\<lparr>http_method := Some ''DELETE''\<rparr>)))"

definition api_toggleComplete :: "'j platform \<Rightarrow> browser \<Rightarrow> int \<Rightarrow> 'j payload api_outcome" where
  "api_toggleComplete pf b taskId =
     (let userId = getUserId pf b
      in if \<not> truthy userId then not_authenticated b
         else request pf b
                (''/api/'' @ the userId @ ''/tasks/'' @ number_toString taskId @ ''/complete'')
                (no_options\<lparr>http_method := Some ''PATCH''\<rparr>))"

text \<open>
  The six task operations of the client as one type, with the three observations of a
  call that do not depend on the type of the value it resolves to.
\<close>

datatype api_call =
  GetTasks | GetTask int | CreateTask CreateTaskRequest | UpdateTask int UpdateTaskRequest
  | DeleteTask int | ToggleComplete int

definition failure :: "'r api_outcome \<Rightarrow> thrown option" where
  "failure out = (case result out of Inl e \<Rightarrow> Some e | Inr v \<Rightarrow> None)"

fun call_failure :: "'j platform \<Rightarrow> browser \<Rightarrow> api_call \<Rightarrow> thrown option" where
  "call_failure pf b GetTasks = failure (api_getTasks pf b)"
| "call_failure pf b (GetTask taskId) = failure (api_getTask pf b taskId)"
| "call_failure pf b (CreateTask data) = failure (api_createTask pf b data)"
| "call_failure pf b (UpdateTask taskId data) = failure (api_updateTask pf b taskId data)"
| "call_failure pf b (DeleteTask taskId) = failure (api_deleteTask pf b taskId)"
| "call_failure pf b (ToggleComplete taskId) = failure (api_toggleComplete pf b taskId)"

fun call_sent :: "'j platform \<Rightarrow> browser \<Rightarrow> api_call \<Rightarrow> http_request list" where
  "call_sent pf b GetTasks = sent (api_getTasks pf b)"
| "call_sent pf b (GetTask taskId) = sent (api_getTask pf b taskId)"
| "call_sent pf b (CreateTask data) = sent (api_createTask pf b data)"
| "call_sent pf b (UpdateTask taskId data) = sent (api_updateTask pf b taskId data)"
| "call_sent pf b (DeleteTask taskId) = sent (api_deleteTask pf b taskId)"
| "call_sent pf b (ToggleComplete taskId) = sent (api_toggleComplete pf b taskId)"

fun call_browser :: "'j platform \<Rightarrow> browser \<Rightarrow> api_call \<Rightarrow> browser" where
  "call_browser pf b GetTasks = browser_after (api_getTasks pf b)"
| "call_browser pf b (GetTask taskId) = browser_after (api_getTask pf b taskId)"
| "call_browser pf b (CreateTask data) = browser_after (api_createTask pf b data)"
| "call_browser pf b (UpdateTask taskId data) = browser_after (api_updateTask pf b taskId data)"
| "call_browser pf b (DeleteTask taskId) = browser_after (api_deleteTask pf b taskId)"
| "call_browser pf b (ToggleComplete taskId) = browser_after (api_toggleComplete pf b taskId)"

text \<open>
  The endpoint string and the options that each task operation passes to \<open>request\<close> for
  the user id \<open>uid\<close>, and the \<open>Authorization\<close> header of a request.
\<close>

fun call_endpoint :: "string \<Rightarrow> api_call \<Rightarrow> string" where
  "call_endpoint uid GetTasks = ''/api/'' @ uid @ ''/tasks''"
| "call_endpoint uid (GetTask taskId) = ''/api/'' @ uid @ ''/tasks/'' @ number_toString taskId"
| "call_endpoint uid (CreateTask data) = ''/api/'' @ uid @ ''/tasks''"
| "call_endpoint uid (UpdateTask taskId data) =
     ''/api/'' @ uid @ ''/tasks/'' @ number_toString taskId"
| "call_endpoint uid (DeleteTask taskId) = ''/api/'' @ uid @ ''/tasks/'' @ number_toString taskId"
| "call_endpoint uid (ToggleComplete taskId) =
     ''/api/'' @ uid @ ''/tasks/'' @ number_toString taskId @ ''/complete''"

fun call_options :: "'j platform \<Rightarrow> api_call \<Rightarrow> RequestInit" where
  "call_options pf GetTasks = no_options"
| "call_options pf (GetTask taskId) = no_options"
| "call_options pf (CreateTask data) =
     no_options\<lparr>http_method := Some ''POST'', body := Some (JSON_stringify pf data)\<rparr>"
| "call_options pf (UpdateTask taskId data) =
     no_options\<lparr>http_method := Some ''PUT'', body := Some (JSON_stringify pf data)\<rparr>"
| "call_options pf (DeleteTask taskId) = no_options\<lparr>http_method := Some ''DELETE''\<rparr>"
| "call_options pf (ToggleComplete taskId) = no_options\<lparr>http_method := Some ''PATCH''\<rparr>"

definition authorization_of :: "http_request \<Rightarrow> string option" where
  "authorization_of req = headers (init req) ''Authorization''"

section \<open>The authorization gate and the data access layer of the backend\<close>

datatype gate_error = authentication_error | authorization_error

text \<open>
  Modelled from the spec: the backend's authorization gate, which is not among the
  sources (the client only sends it a bearer token and a user id in the path). Given a
  bearer token and the target user id of the request path, the gate (1) verifies the
  signature and the expiry of the token against the shared secret and fails with an
  authentication error when the token is missing, invalid or expired; (2) compares the
  subject claim with the target user id and fails with an authorization error when they
  differ; (3) otherwise passes the verified identity on as the scoping key. \<open>verified\<close>
  and \<open>subject_claim\<close> are the checks and the claim of the token library.
\<close>

definition authorization_gate ::
    "('tok \<Rightarrow> bool) \<Rightarrow> ('tok \<Rightarrow> string) \<Rightarrow> 'tok option \<Rightarrow> string \<Rightarrow> gate_error + string" where
  "authorization_gate verified subject_claim bearer target =
     (case bearer of
        None \<Rightarrow> Inl authentication_error
      | Some tok \<Rightarrow>
          if \<not> verified tok then Inl authentication_error
          else if subject_claim tok \<noteq> target then Inl authorization_error
          else Inr (subject_claim tok))"

text \<open>
  Modelled from the spec: the backend's data access layer, which is not among the
  sources. It executes every persistence operation scoped to the rows of one user: the
  rows a query with scoping key \<open>key\<close> reads or mutates are those whose \<open>user_id\<close> is
  \<open>key\<close>.
\<close>

definition scoped_rows :: "string \<Rightarrow> Task list \<Rightarrow> Task list" where
  "scoped_rows key rows = filter (\<lambda>row. user_id row = key) rows"

text \<open>
  Modelled from the spec: a protected request on the table \<open>rows\<close>, as the control flow
  of the spec has it (the gate first, then the data access layer with the identity the
  gate passes on). The result is the gate's error, or the rows the request reads or
  mutates.
\<close>

definition protected_request ::
    "('tok \<Rightarrow> bool) \<Rightarrow> ('tok \<Rightarrow> string) \<Rightarrow> 'tok option \<Rightarrow> string \<Rightarrow> Task list
       \<Rightarrow> gate_error + Task list" where
  "protected_request verified subject_claim bearer target rows =
     (case authorization_gate verified subject_claim bearer target of
        Inl e \<Rightarrow> Inl e
      | Inr key \<Rightarrow> Inr (scoped_rows key rows))"

section \<open>Example inputs\<close>

definition example_task :: "int \<Rightarrow> string \<Rightarrow> string \<Rightarrow> bool \<Rightarrow> Task" where
  "example_task n owner t c =
     \<lparr> task_id = n, user_id = owner, title = t, description = None, is_completed = c,
       created_at = ''2025-01-01T00:00:00Z'', updated_at = ''2025-01-01T00:00:00Z'' \<rparr>"


definition example_request :: "string \<Rightarrow> TaskRequest" where
  "example_request t = \<lparr> req_title = t, req_description = None \<rparr>"

text \<open>The stored user \<open>{"id":"u1"}\<close>; the character \<open>0x22\<close> is the double quote.\<close>

definition example_user_json :: string where
  "example_user_json =
     ''{'' @ [CHR 0x22] @ ''id'' @ [CHR 0x22] @ '':'' @ [CHR 0x22] @ ''u1'' @ [CHR 0x22] @ ''}''"

definition example_browser :: "string option \<Rightarrow> string option \<Rightarrow> browser" where
  "example_browser token user =
     \<lparr> window_defined = True,
       localStorage = (\<lambda>k. if k = ''access_token'' then token
                            else if k = ''user'' then user else None),
       location_href = ''/dashboard'' \<rparr>"

definition example_platform :: "http_response option \<Rightarrow> unit platform" where
  "example_platform response =
     \<lparr> NEXT_PUBLIC_API_URL = None,
       fetch = (\<lambda>req. response),
       JSON_parse = (\<lambda>s. Some ()),
       JSON_user_id = (\<lambda>s. if s = example_user_json then Some ''u1'' else None),
       JSON_detail = (\<lambda>s. None),
       JSON_stringify = (\<lambda>data. req_title data) \<rparr>"

text \<open>An example token library: a token is its subject and whether it verifies.\<close>

definition example_verified :: "string \<times> bool \<Rightarrow> bool" where
  "example_verified tok = snd tok"

definition example_subject :: "string \<times> bool \<Rightarrow> string" where
  "example_subject tok = fst tok"

section \<open>Task statistics\<close>

lemma length_filter_partition:
  "length (filter P xs) + length (filter (\<lambda>x. \<not> P x) xs) = length xs"
  by (induction xs) simp_all

text \<open>
  C9. For every task list, \<open>computeStats\<close> returns \<open>total\<close> equal to the length of the
  list, \<open>completed\<close> equal to the number of tasks whose \<open>is_completed\<close> is true, \<open>pending\<close>
  equal to the number whose \<open>is_completed\<close> is false, and so \<open>pending + completed = total\<close>.
\<close>

theorem computeStats_counts:
  "total (computeStats ts) = length ts
   \<and> completed (computeStats ts) = length (filter is_completed ts)
   \<and> pending (computeStats ts) = length (filter (\<lambda>t. \<not> is_completed t) ts)
   \<and> pending (computeStats ts) + completed (computeStats ts) = total (computeStats ts)"
proof -
  have "length (filter is_completed ts) + length (filter (\<lambda>t. \<not> is_completed t) ts)
          = length ts"
    by (rule length_filter_partition)
  then show ?thesis
    by (simp add: computeStats_def)
qed

section \<open>The optimistic updaters\<close>

lemma spread_update_id: "task_id (spread_update task data) = task_id task"
  by (simp add: spread_update_def split: option.splits)

lemma update_ids: "map task_id (updateTask_optimistic taskId data prev) = map task_id prev"
  by (induction prev) (simp_all add: updateTask_optimistic_def spread_update_id)

lemma toggle_ids: "map task_id (toggleComplete_optimistic taskId prev) = map task_id prev"
  by (induction prev) (simp_all add: toggleComplete_optimistic_def)

lemma update_others:
  "filter (\<lambda>t. task_id t \<noteq> taskId) (updateTask_optimistic taskId data prev)
     = filter (\<lambda>t. task_id t \<noteq> taskId) prev"
  by (induction prev) (simp_all add: updateTask_optimistic_def spread_update_id)

lemma toggle_others:
  "filter (\<lambda>t. task_id t \<noteq> taskId) (toggleComplete_optimistic taskId prev)
     = filter (\<lambda>t. task_id t \<noteq> taskId) prev"
  by (induction prev) (simp_all add: toggleComplete_optimistic_def)

lemma delete_subseq: "subseq (deleteTask_optimistic taskId prev) prev"
  by (simp add: deleteTask_optimistic_def)

lemma toggle_twice:
  "toggleComplete_optimistic taskId (toggleComplete_optimistic taskId prev) = prev"
  by (induction prev) (simp_all add: toggleComplete_optimistic_def)

text \<open>
  C5. For every starting completion state, applying the local toggle-complete mutation
  twice to the same task returns the task to its original completion state: the
  optimistic flip composed with itself is the identity, on the updater and on the state
  cell of the hook (whatever the two callbacks captured as \<open>tasks\<close>).
\<close>

theorem toggleComplete_optimistic_twice:
  "toggleComplete_optimistic taskId (toggleComplete_optimistic taskId prev) = prev
   \<and> tasks (snd (toggleComplete_begin r2 (snd (toggleComplete_begin r1 s taskId)) taskId))
       = tasks s"
  by (simp add: toggle_twice toggleComplete_begin_def)

text \<open>
  C10. The optimistic mutations preserve the frame. For every task list and task id, the
  local update and the local toggle keep the length of the list and the id at every
  position, leave every task with another id as it is, and (for the toggle) change only
  \<open>is_completed\<close> of a task with that id; the local delete yields a subsequence of the list
  that holds exactly the tasks with another id. In all three the sequence of the tasks
  with another id is the same before and after.
\<close>

theorem optimistic_frame:
  "map task_id (updateTask_optimistic taskId data prev) = map task_id prev
   \<and> (\<forall>i < length prev. task_id (prev ! i) \<noteq> taskId \<longrightarrow>
         updateTask_optimistic taskId data prev ! i = prev ! i)
   \<and> filter (\<lambda>t. task_id t \<noteq> taskId) (updateTask_optimistic taskId data prev)
       = filter (\<lambda>t. task_id t \<noteq> taskId) prev
   \<and> map task_id (toggleComplete_optimistic taskId prev) = map task_id prev
   \<and> (\<forall>i < length prev. task_id (prev ! i) \<noteq> taskId \<longrightarrow>
         toggleComplete_optimistic taskId prev ! i = prev ! i)
   \<and> (\<forall>i < length prev. task_id (prev ! i) = taskId \<longrightarrow>
         toggleComplete_optimistic taskId prev ! i
           = (prev ! i)\<lparr>is_completed := \<not> is_completed (prev ! i)\<rparr>)
   \<and> filter (\<lambda>t. task_id t \<noteq> taskId) (toggleComplete_optimistic taskId prev)
       = filter (\<lambda>t. task_id t \<noteq> taskId) prev
   \<and> subseq (deleteTask_optimistic taskId prev) prev
   \<and> (\<forall>t. t \<in> set (deleteTask_optimistic taskId prev) \<longleftrightarrow> t \<in> set prev \<and> task_id t \<noteq> taskId)
   \<and> filter (\<lambda>t. task_id t \<noteq> taskId) (deleteTask_optimistic taskId prev)
       = filter (\<lambda>t. task_id t \<noteq> taskId) prev"
proof -
  have u: "\<forall>i < length prev. task_id (prev ! i) \<noteq> taskId \<longrightarrow>
             updateTask_optimistic taskId data prev ! i = prev ! i"
    by (simp add: updateTask_optimistic_def)
  have t1: "\<forall>i < length prev. task_id (prev ! i) \<noteq> taskId \<longrightarrow>
             toggleComplete_optimistic taskId prev ! i = prev ! i"
    by (simp add: toggleComplete_optimistic_def)
  have t2: "\<forall>i < length prev. task_id (prev ! i) = taskId \<longrightarrow>
             toggleComplete_optimistic taskId prev ! i
               = (prev ! i)\<lparr>is_completed := \<not> is_completed (prev ! i)\<rparr>"
    by (simp add: toggleComplete_optimistic_def)
  have d1: "\<forall>t. t \<in> set (deleteTask_optimistic taskId prev)
              \<longleftrightarrow> t \<in> set prev \<and> task_id t \<noteq> taskId"
    by (simp add: deleteTask_optimistic_def)
  have d2: "filter (\<lambda>t. task_id t \<noteq> taskId) (deleteTask_optimistic taskId prev)
              = filter (\<lambda>t. task_id t \<noteq> taskId) prev"
    by (simp add: deleteTask_optimistic_def)
  show ?thesis
    using u t1 t2 d1 d2 update_ids [of taskId data prev] toggle_ids [of taskId prev]
      update_others [of taskId data prev] toggle_others [of taskId prev]
      delete_subseq [of taskId prev]
    by blast
qed

theorem optimistic_frame_witness:
  "updateTask_optimistic 1 (example_request ''c'')
       [example_task 1 ''u1'' ''a'' False, example_task 2 ''u1'' ''b'' False] ! 1
     = example_task 2 ''u1'' ''b'' False
   \<and> toggleComplete_optimistic 1
       [example_task 1 ''u1'' ''a'' False, example_task 2 ''u1'' ''b'' False] ! 1
     = example_task 2 ''u1'' ''b'' False
   \<and> toggleComplete_optimistic 1
       [example_task 1 ''u1'' ''a'' False, example_task 2 ''u1'' ''b'' False] ! 0
     = example_task 1 ''u1'' ''a'' True
   \<and> example_task 2 ''u1'' ''b'' False \<in> set (deleteTask_optimistic 1
       [example_task 1 ''u1'' ''a'' False, example_task 2 ''u1'' ''b'' False])"
  using optimistic_frame [of 1 "example_request ''c''"
      "[example_task 1 ''u1'' ''a'' False, example_task 2 ''u1'' ''b'' False]"]
  by (simp add: example_task_def)

section \<open>The duplicate guard of createTask\<close>

lemma count_id_zero: "\<not> list_ex (\<lambda>x. task_id x = n) prev \<Longrightarrow> count_id n prev = 0"
  by (induction prev) (simp_all add: count_id_def)

lemma count_id_pos: "list_ex (\<lambda>x. task_id x = n) prev \<Longrightarrow> 0 < count_id n prev"
  by (induction prev) (auto simp add: count_id_def)

lemma insert_idem: "createTask_insert t (createTask_insert t prev) = createTask_insert t prev"
  by (simp add: createTask_insert_def)

text \<open>
  C3, as stated, fails on a list that already holds two tasks with the id of the
  response: both insertions are skipped and the list still holds two.
\<close>

theorem createTask_insert_duplicates_counterexample:
  "count_id 1 (createTask_insert (example_task 1 ''u1'' ''c'' False)
                 (createTask_insert (example_task 1 ''u1'' ''c'' False)
                    [example_task 1 ''u1'' ''a'' False, example_task 1 ''u1'' ''b'' False])) = 2"
  by (simp add: count_id_def createTask_insert_def example_task_def)

text \<open>
  C3, amended. For every task list and every create response, inserting the response
  twice gives the same list as inserting it once, and the insertion leaves the list as it
  is when a task with that id is already present. For every task list that holds at most
  one task with the id of the response, the list after the two insertions holds exactly
  one task with that id.
\<close>

theorem createTask_insert_guard:
  "createTask_insert t (createTask_insert t prev) = createTask_insert t prev
   \<and> (list_ex (\<lambda>x. task_id x = task_id t) prev \<longrightarrow> createTask_insert t prev = prev)
   \<and> (count_id (task_id t) prev \<le> 1 \<longrightarrow>
        count_id (task_id t) (createTask_insert t (createTask_insert t prev)) = 1)"
proof -
  have c: "count_id (task_id t) (createTask_insert t prev) = 1"
    if "count_id (task_id t) prev \<le> 1"
  proof (cases "list_ex (\<lambda>x. task_id x = task_id t) prev")
    case True
    with that count_id_pos [of "task_id t" prev] show ?thesis
      by (simp add: createTask_insert_def)
  next
    case False
    with count_id_zero [of "task_id t" prev] show ?thesis
      by (simp add: createTask_insert_def count_id_def)
  qed
  show ?thesis
    using c by (simp add: insert_idem) (simp add: createTask_insert_def)
qed

theorem createTask_insert_guard_witness:
  "count_id (task_id (example_task 1 ''u1'' ''a'' False)) [example_task 2 ''u1'' ''b'' False] \<le> 1
   \<and> count_id (task_id (example_task 1 ''u1'' ''a'' False))
         (createTask_insert (example_task 1 ''u1'' ''a'' False)
            (createTask_insert (example_task 1 ''u1'' ''a'' False)
               [example_task 2 ''u1'' ''b'' False])) = 1
   \<and> list_ex (\<lambda>x. task_id x = task_id (example_task 1 ''u1'' ''a'' False))
         [example_task 1 ''u1'' ''b'' True]
   \<and> createTask_insert (example_task 1 ''u1'' ''a'' False) [example_task 1 ''u1'' ''b'' True]
       = [example_task 1 ''u1'' ''b'' True]"
proof -
  have h1: "count_id (task_id (example_task 1 ''u1'' ''a'' False))
              [example_task 2 ''u1'' ''b'' False] \<le> 1"
    by (simp add: count_id_def example_task_def)
  have h2: "list_ex (\<lambda>x. task_id x = task_id (example_task 1 ''u1'' ''a'' False))
              [example_task 1 ''u1'' ''b'' True]"
    by (simp add: example_task_def)
  show ?thesis
    using h1 h2
      createTask_insert_guard [of "example_task 1 ''u1'' ''a'' False"
        "[example_task 2 ''u1'' ''b'' False]"]
      createTask_insert_guard [of "example_task 1 ''u1'' ''a'' False"
        "[example_task 1 ''u1'' ''b'' True]"]
    by blast
qed

section \<open>The callbacks of the hook\<close>

text \<open>
  C7. The list fetch is not optimistic: for every current local list and every
  successful fetch response, the local list afterwards is exactly the fetched list,
  also when the state cells have changed while the request was in flight.
\<close>

theorem fetchTasks_replaces_list:
  "tasks (state (fetchTasks s (Inr (TaskListResponse fetched)))) = fetched
   \<and> tasks (state (fetchTasks_settle (Inr (TaskListResponse fetched)) inflight)) = fetched"
  by (simp add: fetchTasks_def fetchTasks_settle_def)






section \<open>Requests of the API client\<close>

lemmas api_defs = api_getTasks_def api_getTask_def api_createTask_def api_updateTask_def
  api_deleteTask_def api_toggleComplete_def

lemma request_sent: "sent (request pf b endpoint options) = [handed_to_fetch pf b endpoint options]"
  by (simp add: request_def Let_def split: option.splits)



lemma handed_authorization:
  "headers options = Map.empty \<Longrightarrow>
   authorization_of (handed_to_fetch pf b endpoint options)
     = (if truthy (getAccessToken b) then Some (''Bearer '' @ the (getAccessToken b)) else None)"
  by (simp add: authorization_of_def handed_to_fetch_def Let_def)

lemma handed_url: "url (handed_to_fetch pf b endpoint options) = API_BASE pf @ endpoint"
  by (simp add: handed_to_fetch_def Let_def)

lemma call_unauthenticated:
  assumes "\<not> truthy (getUserId pf b)"
  shows "call_failure pf b c = Some (ApiError 401 ''Not authenticated'')"
    and "call_sent pf b c = []" and "call_browser pf b c = b"
  using assms
  by (cases c; simp add: api_defs not_authenticated_def failure_def Let_def)+

lemma call_authenticated:
  assumes "truthy (getUserId pf b)"
  shows "call_sent pf b c
           = sent (request pf b (call_endpoint (the (getUserId pf b)) c) (call_options pf c))"
    and "call_browser pf b c
           = browser_after (request pf b (call_endpoint (the (getUserId pf b)) c) (call_options pf c))"
    and "call_failure pf b c
           = failure (request pf b (call_endpoint (the (getUserId pf b)) c) (call_options pf c))"
  using assms
  by (cases c; simp add: api_defs then_return_def failure_def Let_def split: sum.splits)+

lemma call_options_headers: "headers (call_options pf c) = Map.empty"
  by (cases c) (simp_all add: no_options_def)

lemma call_endpoint_prefix: "prefix (''/api/'' @ uid @ ''/tasks'') (call_endpoint uid c)"
  by (cases c) (simp_all add: prefix_def)

lemma call_sent_authenticated:
  assumes "truthy (getUserId pf b)"
  shows "call_sent pf b c
           = [handed_to_fetch pf b (call_endpoint (the (getUserId pf b)) c) (call_options pf c)]"
  using assms by (simp add: call_authenticated(1) request_sent)

text \<open>
  C8, as stated, fails when a user is stored and no access token is: the request is
  issued, to the path of the stored user, without an \<open>Authorization\<close> header.
\<close>

theorem request_without_token_counterexample:
  "getUserId (example_platform None) (example_browser None (Some example_user_json)) = Some ''u1''
   \<and> map url (call_sent (example_platform None)
                 (example_browser None (Some example_user_json)) GetTasks)
       = [''http://localhost:8000/api/u1/tasks'']
   \<and> map authorization_of (call_sent (example_platform None)
                 (example_browser None (Some example_user_json)) GetTasks)
       = [None]"
proof -
  let ?pf = "example_platform None"
  let ?b = "example_browser None (Some example_user_json)"
  have u: "getUserId ?pf ?b = Some ''u1''"
    by (simp add: getUserId_def example_platform_def example_browser_def truthy_def
          example_user_json_def)
  then have t: "truthy (getUserId ?pf ?b)"
    by (simp add: truthy_def)
  have a: "getAccessToken ?b = None"
    by (simp add: getAccessToken_def example_browser_def)
  have base: "API_BASE ?pf = ''http://localhost:8000''"
    by (simp add: API_BASE_def example_platform_def truthy_def)
  have s: "call_sent ?pf ?b GetTasks
             = [handed_to_fetch ?pf ?b (call_endpoint (the (getUserId ?pf ?b)) GetTasks)
                  (call_options ?pf GetTasks)]"
    using t by (rule call_sent_authenticated)
  show ?thesis
    unfolding s using u a base
    by (simp add: handed_url handed_authorization no_options_def truthy_def)
qed

text \<open>
  C8, amended. Every task operation of the client (\<open>getTasks\<close>, \<open>getTask\<close>, \<open>createTask\<close>,
  \<open>updateTask\<close>, \<open>deleteTask\<close>, \<open>toggleComplete\<close>) fails with the 401 error
  \<open>Not authenticated\<close> before issuing any request, and leaves the browser as it is, when
  no user id can be read from the stored user. Otherwise it issues exactly one request,
  to the path of the operation under \<open>/api/<stored user id>/tasks\<close>; the request carries
  the header \<open>Authorization: Bearer <token>\<close> when a non-empty access token is stored,
  and no \<open>Authorization\<close> header when none is.
\<close>

theorem task_calls_authentication:
  "(\<not> truthy (getUserId pf b) \<longrightarrow>
      call_failure pf b c = Some (ApiError 401 ''Not authenticated'')
      \<and> call_sent pf b c = [] \<and> call_browser pf b c = b)
   \<and> (truthy (getUserId pf b) \<longrightarrow>
      (\<exists>req. call_sent pf b c = [req]
         \<and> url req = API_BASE pf @ call_endpoint (the (getUserId pf b)) c
         \<and> prefix (API_BASE pf @ ''/api/'' @ the (getUserId pf b) @ ''/tasks'') (url req)
         \<and> authorization_of req
             = (if truthy (getAccessToken b) then Some (''Bearer '' @ the (getAccessToken b))
                else None)))"
proof (cases "truthy (getUserId pf b)")
  case False
  then show ?thesis
    by (simp add: call_unauthenticated)
next
  case True
  let ?req = "handed_to_fetch pf b (call_endpoint (the (getUserId pf b)) c) (call_options pf c)"
  have s: "call_sent pf b c = [?req]"
    using True by (rule call_sent_authenticated)
  have u: "url ?req = API_BASE pf @ call_endpoint (the (getUserId pf b)) c"
    by (rule handed_url)
  have p: "prefix (API_BASE pf @ ''/api/'' @ the (getUserId pf b) @ ''/tasks'') (url ?req)"
    using call_endpoint_prefix [of "the (getUserId pf b)" c] by (simp add: u)
  have a: "authorization_of ?req
             = (if truthy (getAccessToken b) then Some (''Bearer '' @ the (getAccessToken b))
                else None)"
    by (rule handed_authorization) (rule call_options_headers)
  from True s u p a show ?thesis
    by blast
qed

theorem task_calls_authentication_witness:
  "\<not> truthy (getUserId (example_platform None) (example_browser None None))
   \<and> call_failure (example_platform None) (example_browser None None) (DeleteTask 7)
       = Some (ApiError 401 ''Not authenticated'')
   \<and> call_sent (example_platform None) (example_browser None None) (DeleteTask 7) = []
   \<and> truthy (getUserId (example_platform None)
                (example_browser (Some ''jwt'') (Some example_user_json)))
   \<and> map url (call_sent (example_platform None)
                 (example_browser (Some ''jwt'') (Some example_user_json)) (ToggleComplete 7))
       = [''http://localhost:8000/api/u1/tasks/7/complete'']
   \<and> map authorization_of (call_sent (example_platform None)
                 (example_browser (Some ''jwt'') (Some example_user_json)) (ToggleComplete 7))
       = [Some ''Bearer jwt'']"
proof -
  let ?pf = "example_platform None"
  let ?b0 = "example_browser None None"
  let ?b1 = "example_browser (Some ''jwt'') (Some example_user_json)"
  have n: "\<not> truthy (getUserId ?pf ?b0)"
    by (simp add: getUserId_def example_browser_def truthy_def)
  have u: "getUserId ?pf ?b1 = Some ''u1''"
    by (simp add: getUserId_def example_platform_def example_browser_def truthy_def
          example_user_json_def)
  then have t: "truthy (getUserId ?pf ?b1)"
    by (simp add: truthy_def)
  have a: "getAccessToken ?b1 = Some ''jwt''"
    by (simp add: getAccessToken_def example_browser_def)
  have base: "API_BASE ?pf = ''http://localhost:8000''"
    by (simp add: API_BASE_def example_platform_def truthy_def)
  have seven: "number_toString 7 = ''7''"
    by (simp add: number_toString_def digits.simps [of 7])
  from n task_calls_authentication [of ?pf ?b0 "DeleteTask 7"]
  have first: "call_failure ?pf ?b0 (DeleteTask 7) = Some (ApiError 401 ''Not authenticated'')
                 \<and> call_sent ?pf ?b0 (DeleteTask 7) = []"
    by blast
  from t task_calls_authentication [of ?pf ?b1 "ToggleComplete 7"]
  obtain req where r: "call_sent ?pf ?b1 (ToggleComplete 7) = [req]"
      and ru: "url req = API_BASE ?pf @ call_endpoint (the (getUserId ?pf ?b1)) (ToggleComplete 7)"
      and ra: "authorization_of req
                 = (if truthy (getAccessToken ?b1) then Some (''Bearer '' @ the (getAccessToken ?b1))
                    else None)"
    by blast
  have ru': "url req = ''http://localhost:8000/api/u1/tasks/7/complete''"
    by (simp add: ru u base seven)
  have ra': "authorization_of req = Some ''Bearer jwt''"
    by (simp add: ra a truthy_def)
  from n t first show ?thesis
    unfolding r by (simp add: ru' ra')
qed



section \<open>User isolation on the backend\<close>

text \<open>
  C4. For every task row that a protected request reads or mutates, the \<open>user_id\<close> of the
  row equals the authenticated subject of the request, which is also the target user id
  of its path; a cross-user access (the subject of the token differs from the target
  user id) never succeeds, and with a verified token it fails with an authorization
  error.
\<close>

theorem gate_user_isolation:
  "(protected_request verified subject_claim bearer target rows = Inr touched \<longrightarrow>
      (\<exists>tok. bearer = Some tok \<and> verified tok \<and> subject_claim tok = target
         \<and> (\<forall>row \<in> set touched. user_id row = subject_claim tok)))
   \<and> (bearer = Some tok \<and> subject_claim tok \<noteq> target \<longrightarrow>
        (\<exists>e. protected_request verified subject_claim bearer target rows = Inl e))
   \<and> (bearer = Some tok \<and> verified tok \<and> subject_claim tok \<noteq> target \<longrightarrow>
        protected_request verified subject_claim bearer target rows = Inl authorization_error)"
  by (cases bearer)
    (auto simp add: protected_request_def authorization_gate_def scoped_rows_def
       split: if_splits)

theorem gate_user_isolation_witness:
  "protected_request example_verified example_subject (Some (''u1'', True)) ''u1''
       [example_task 1 ''u1'' ''a'' False, example_task 2 ''u2'' ''b'' False]
     = Inr [example_task 1 ''u1'' ''a'' False]
   \<and> user_id (example_task 1 ''u1'' ''a'' False) = example_subject (''u1'', True)
   \<and> example_subject (''u1'', True) \<noteq> ''u2''
   \<and> protected_request example_verified example_subject (Some (''u1'', True)) ''u2''
       [example_task 1 ''u1'' ''a'' False, example_task 2 ''u2'' ''b'' False]
     = Inl authorization_error"
proof -
  let ?rows = "[example_task 1 ''u1'' ''a'' False, example_task 2 ''u2'' ''b'' False]"
  let ?tok = "(''u1'', True)"
  have ok: "protected_request example_verified example_subject (Some ?tok) ''u1'' ?rows
              = Inr [example_task 1 ''u1'' ''a'' False]"
    by (simp add: protected_request_def authorization_gate_def scoped_rows_def
          example_verified_def example_subject_def example_task_def)
  have cross: "Some ?tok = Some ?tok \<and> example_verified ?tok \<and> example_subject ?tok \<noteq> ''u2''"
    by (simp add: example_verified_def example_subject_def)
  from ok gate_user_isolation
      [of example_verified example_subject "Some ?tok" "''u1''" ?rows
          "[example_task 1 ''u1'' ''a'' False]" ?tok]
  have own: "user_id (example_task 1 ''u1'' ''a'' False) = example_subject ?tok"
    by auto
  from cross gate_user_isolation
      [of example_verified example_subject "Some ?tok" "''u2''" ?rows "[]" ?tok]
  have denied: "protected_request example_verified example_subject (Some ?tok) ''u2'' ?rows
                  = Inl authorization_error"
    by blast
  from ok own cross denied show ?thesis
    by blast
qed

end
